theory Spec2Isabelle
  imports Main "HOL-Library.Sublist" "HOL-Library.Multiset" "HOL-Library.Product_Lexorder"
begin

section \<open>Regulation tracker: entity model, filter, ordering and status workflow\<close>

text \<open>
  The program is one Streamlit script, \<^verbatim>\<open>app.py\<close>: three SQLAlchemy tables and a page that
  filters the regulations, labels them, lists the actions of the selected one by due date
  and handles the status, save, delete and add forms. Each part of the script is embedded
  below as a function; what the script reads from the outside (the clock, the rows loaded,
  what the user typed or picked) is a parameter.
\<close>

subsection \<open>Python values\<close>

text \<open>
  A Python \<^verbatim>\<open>str\<close> is a sequence of Unicode code points, so a string is a list of
  naturals: \<^verbatim>\<open>len\<close> and slicing count code points. \<open>py\<close> writes an ASCII literal.
  A \<^verbatim>\<open>date\<close> compares as the triple (year, month, day); a \<^verbatim>\<open>datetime\<close> carries
  year, month, day, hour, minute, second and microsecond; a nullable column is an option.
\<close>

type_synonym pystr = "nat list"

type_synonym date = "nat \<times> nat \<times> nat"

datatype datetime = Datetime nat nat nat nat nat nat nat

definition py :: "string \<Rightarrow> pystr" where
  "py s = map of_char s"

text \<open>\<^verbatim>\<open>date.max\<close> is 9999-12-31.\<close>

definition date_max :: date where
  "date_max = (9999, 12, 31)"

text \<open>
  \<^verbatim>\<open>x or d\<close>: the default replaces a value that is falsy. \<^verbatim>\<open>None\<close> and the empty string
  are falsy; every \<^verbatim>\<open>date\<close> is truthy.
\<close>

definition str_or :: "pystr \<Rightarrow> pystr \<Rightarrow> pystr" where
  "str_or x d = (if x = [] then d else x)"

definition opt_or :: "pystr option \<Rightarrow> pystr \<Rightarrow> pystr" where
  "opt_or x d = (case x of None \<Rightarrow> d | Some s \<Rightarrow> str_or s d)"

definition date_or :: "date option \<Rightarrow> date \<Rightarrow> date" where
  "date_or x d = (case x of None \<Rightarrow> d | Some v \<Rightarrow> v)"

text \<open>
  \<^verbatim>\<open>s.find(sub)\<close>: the lowest index at which \<open>sub\<close> occurs in \<open>s\<close>, and \<open>-1\<close> when it
  does not occur. The empty string occurs at index 0.
\<close>

fun str_find_from :: "nat \<Rightarrow> pystr \<Rightarrow> pystr \<Rightarrow> int" where
  "str_find_from i [] sub = (if sub = [] then int i else - 1)"
| "str_find_from i (c # cs) sub =
     (if prefix sub (c # cs) then int i else str_find_from (Suc i) cs sub)"

definition str_find :: "pystr \<Rightarrow> pystr \<Rightarrow> int" where
  "str_find s sub = str_find_from 0 s sub"

text \<open>
  \<^verbatim>\<open>str.lower\<close> is Python's Unicode lower-casing; every function below that calls it takes
  it as the parameter \<open>lower\<close>. \<open>ascii_lower\<close> is what it does on ASCII text, for the
  concrete runs.
\<close>

definition ascii_lower :: "pystr \<Rightarrow> pystr" where
  "ascii_lower s = map (\<lambda>c. if 65 \<le> c \<and> c \<le> 90 then c + 32 else c) s"

text \<open>\<^verbatim>\<open>str(n)\<close> for an integer: the decimal digits, after a minus sign when negative.\<close>

fun str_nat :: "nat \<Rightarrow> pystr" where
  "str_nat n = (if n < 10 then [48 + n] else str_nat (n div 10) @ [48 + n mod 10])"

declare str_nat.simps [simp del]

definition str_int :: "int \<Rightarrow> pystr" where
  "str_int n = (if n < 0 then 45 # str_nat (nat (- n)) else str_nat (nat n))"

text \<open>\<^verbatim>\<open>xs.index(v)\<close>: the first position of \<open>v\<close>, or \<^verbatim>\<open>ValueError\<close>.\<close>

datatype py_error = ValueError

fun list_index :: "'a list \<Rightarrow> 'a \<Rightarrow> py_error + nat" where
  "list_index [] v = Inl ValueError"
| "list_index (x # xs) v =
     (if x = v then Inr 0
      else (case list_index xs v of Inl e \<Rightarrow> Inl e | Inr i \<Rightarrow> Inr (Suc i)))"

subsection \<open>The tables\<close>

text \<open>
  \<^verbatim>\<open>title\<close> is \<^verbatim>\<open>nullable=False\<close> in both tables; every other column but the primary key
  may be NULL. An \<^verbatim>\<open>Action\<close> object has no id before it is inserted.
\<close>

record regulation =
  reg_id :: int
  reg_title :: pystr
  reg_source :: "pystr option"
  reg_jurisdiction :: "pystr option"
  reg_category :: "pystr option"
  reg_effective_date :: "date option"
  reg_received_at :: "datetime option"
  reg_summary :: "pystr option"
  reg_status :: "pystr option"

record action =
  act_id :: "int option"
  act_regulation_id :: "int option"
  act_title :: pystr
  act_description :: "pystr option"
  act_status :: "pystr option"
  act_assignee :: "pystr option"
  act_due_date :: "date option"
  act_completed_at :: "datetime option"

subsection \<open>The filter loop\<close>

text \<open>
  \<^verbatim>\<open>ql = (q or "").lower()\<close>, then the loop over \<open>regs\<close>: each \<^verbatim>\<open>continue\<close> drops the
  row, \<^verbatim>\<open>filtered.append(r)\<close> keeps it. \<open>source\<close>, \<open>status\<close> and \<open>category\<close> are the
  values of the three select boxes, whose first option is \<^verbatim>\<open>"All"\<close>.
\<close>

definition text_hit :: "(pystr \<Rightarrow> pystr) \<Rightarrow> pystr \<Rightarrow> regulation \<Rightarrow> bool" where
  "text_hit lower ql r \<longleftrightarrow>
     str_find (lower (str_or (reg_title r) [])) ql \<ge> 0
     \<or> str_find (lower (opt_or (reg_summary r) [])) ql \<ge> 0
     \<or> str_find (lower (opt_or (reg_jurisdiction r) [])) ql \<ge> 0"

fun filter_loop ::
  "(pystr \<Rightarrow> pystr) \<Rightarrow> pystr \<Rightarrow> pystr \<Rightarrow> pystr \<Rightarrow> pystr \<Rightarrow> regulation list \<Rightarrow>
   regulation list \<Rightarrow> regulation list" where
  "filter_loop lower ql source status category [] filtered = filtered"
| "filter_loop lower ql source status category (r # regs) filtered =
     (if ql \<noteq> [] \<and> \<not> text_hit lower ql r
        then filter_loop lower ql source status category regs filtered
      else if source \<noteq> py ''All'' \<and> reg_source r \<noteq> Some source
        then filter_loop lower ql source status category regs filtered
      else if status \<noteq> py ''All'' \<and> reg_status r \<noteq> Some status
        then filter_loop lower ql source status category regs filtered
      else if category \<noteq> py ''All'' \<and> reg_category r \<noteq> Some category
        then filter_loop lower ql source status category regs filtered
      else filter_loop lower ql source status category regs (filtered @ [r]))"

definition filtered ::
  "(pystr \<Rightarrow> pystr) \<Rightarrow> pystr option \<Rightarrow> pystr \<Rightarrow> pystr \<Rightarrow> pystr \<Rightarrow> regulation list \<Rightarrow>
   regulation list" where
  "filtered lower q source status category regs =
     filter_loop lower (lower (opt_or q [])) source status category regs []"

subsection \<open>Selection labels\<close>

text \<open>
  \<^verbatim>\<open>titles = [f"#{r.id} \<dots> {r.title[:80]}" for r in filtered]\<close>; the separator is a
  space, an em dash (U+2014, code point 8212) and a space. \<^verbatim>\<open>s[:80]\<close> is \<open>take 80 s\<close>.
\<close>

definition label :: "regulation \<Rightarrow> pystr" where
  "label r = py ''#'' @ str_int (reg_id r) @ [32, 8212, 32] @ take 80 (reg_title r)"

definition titles :: "regulation list \<Rightarrow> pystr list" where
  "titles regs = map label regs"

subsection \<open>Display order of the actions\<close>

text \<open>
  \<^verbatim>\<open>sorted(reg.actions, key=lambda x: (x.due_date or date.max))\<close>. Python's \<^verbatim>\<open>sorted\<close> is
  a stable ascending sort by the key; \<open>sort_key\<close> is the stable insertion sort of the list
  library, and a stable sort has one result.
\<close>

definition due_key :: "action \<Rightarrow> date" where
  "due_key x = date_or (act_due_date x) date_max"

definition sorted_actions :: "action list \<Rightarrow> action list" where
  "sorted_actions actions = sort_key due_key actions"

subsection \<open>Widgets\<close>

text \<open>
  A Streamlit widget returns what the user entered, or the value it was created with when
  the user did not touch it (\<open>None\<close> below). A select box is created with the index of
  its initial option.
\<close>

definition text_input :: "pystr \<Rightarrow> pystr option \<Rightarrow> pystr" where
  "text_input val typed = (case typed of None \<Rightarrow> val | Some t \<Rightarrow> t)"

definition date_input :: "date \<Rightarrow> date option \<Rightarrow> date" where
  "date_input val picked = (case picked of None \<Rightarrow> val | Some d \<Rightarrow> d)"

definition checkbox :: "bool \<Rightarrow> bool option \<Rightarrow> bool" where
  "checkbox val ticked = (case ticked of None \<Rightarrow> val | Some b \<Rightarrow> b)"

definition selectbox :: "pystr list \<Rightarrow> nat \<Rightarrow> pystr option \<Rightarrow> pystr" where
  "selectbox options i picked = (case picked of None \<Rightarrow> options ! i | Some v \<Rightarrow> v)"

subsection \<open>Regulation status\<close>

definition regulation_statuses :: "pystr list" where
  "regulation_statuses = [py ''Open'', py ''In Progress'', py ''Closed'']"

text \<open>
  \<^verbatim>\<open>if new_status != reg.status: reg.status = new_status\<close>, then the commit. The function
  returns the row as committed.
\<close>

definition update_status :: "pystr \<Rightarrow> regulation \<Rightarrow> regulation" where
  "update_status new_status reg =
     (if Some new_status \<noteq> reg_status reg then reg\<lparr>reg_status := Some new_status\<rparr> else reg)"

text \<open>
  The select box in front of it: \<^verbatim>\<open>index=[...].index(reg.status or "Open")\<close> raises
  \<^verbatim>\<open>ValueError\<close> for a stored status that is not an option.
\<close>

definition status_box :: "regulation \<Rightarrow> pystr option \<Rightarrow> py_error + regulation" where
  "status_box reg picked =
     (case list_index regulation_statuses (opt_or (reg_status reg) (py ''Open'')) of
        Inl e \<Rightarrow> Inl e
      | Inr i \<Rightarrow> Inr (update_status (selectbox regulation_statuses i picked) reg))"

subsection \<open>Editing an action\<close>

definition action_statuses :: "pystr list" where
  "action_statuses = [py ''Planned'', py ''In Progress'', py ''Done'', py ''Blocked'']"

text \<open>
  The body of \<^verbatim>\<open>if save:\<close>, one assignment after the other; \<^verbatim>\<open>completed_at\<close> reads the
  status just assigned. \<open>utcnow\<close> is the value of \<^verbatim>\<open>datetime.utcnow()\<close>.
\<close>

definition save_action ::
  "datetime \<Rightarrow> pystr \<Rightarrow> pystr \<Rightarrow> pystr \<Rightarrow> pystr \<Rightarrow> date \<Rightarrow> bool \<Rightarrow> action \<Rightarrow> action" where
  "save_action utcnow new_title new_desc new_status new_assignee new_due done a =
     (let a1 = a\<lparr>act_title := new_title\<rparr>;
          a2 = a1\<lparr>act_description := Some new_desc\<rparr>;
          a3 = a2\<lparr>act_status := Some (if done then py ''Done'' else new_status)\<rparr>;
          a4 = a3\<lparr>act_assignee := Some new_assignee\<rparr>;
          a5 = a4\<lparr>act_due_date := Some new_due\<rparr>
      in a5\<lparr>act_completed_at :=
              (if act_status a5 = Some (py ''Done'') then Some utcnow else None)\<rparr>)"

text \<open>
  What the user did in the expander of one action: the six widgets and the two buttons.
\<close>

record action_ui =
  ui_title :: "pystr option"
  ui_desc :: "pystr option"
  ui_status :: "pystr option"
  ui_assignee :: "pystr option"
  ui_due :: "date option"
  ui_done :: "bool option"
  ui_save :: bool
  ui_delete :: bool

text \<open>
  One pass of the loop body for the action \<open>a\<close>: the widgets are created from the stored
  row (\<^verbatim>\<open>.index(a.status or "Planned")\<close> raises \<^verbatim>\<open>ValueError\<close> for a stored status that
  is not an option), then \<^verbatim>\<open>if save:\<close> and \<^verbatim>\<open>if delete:\<close>. The result is the row after
  the pass, \<open>None\<close> when it was deleted. \<open>today\<close> is the value of \<^verbatim>\<open>date.today()\<close>.
\<close>

definition action_row ::
  "date \<Rightarrow> datetime \<Rightarrow> action \<Rightarrow> action_ui \<Rightarrow> py_error + action option" where
  "action_row today utcnow a ui =
     (let new_title = text_input (act_title a) (ui_title ui);
          new_desc = text_input (opt_or (act_description a) []) (ui_desc ui)
      in case list_index action_statuses (opt_or (act_status a) (py ''Planned'')) of
           Inl e \<Rightarrow> Inl e
         | Inr i \<Rightarrow>
             (let new_status = selectbox action_statuses i (ui_status ui);
                  new_assignee = text_input (opt_or (act_assignee a) []) (ui_assignee ui);
                  new_due = date_input (date_or (act_due_date a) today) (ui_due ui);
                  done = checkbox (act_status a = Some (py ''Done'')) (ui_done ui);
                  a' = (if ui_save ui
                        then save_action utcnow new_title new_desc new_status new_assignee
                               new_due done a
                        else a)
              in Inr (if ui_delete ui then None else Some a')))"

subsection \<open>Adding an action\<close>

text \<open>
  \<^verbatim>\<open>Action(regulation_id=..., title=..., description=..., assignee=..., due_date=...)\<close>:
  the attributes not given are \<^verbatim>\<open>None\<close>.
\<close>

definition Action :: "int \<Rightarrow> pystr \<Rightarrow> pystr \<Rightarrow> pystr \<Rightarrow> date \<Rightarrow> action" where
  "Action regulation_id title description assignee due_date =
     \<lparr>act_id = None, act_regulation_id = Some regulation_id, act_title = title,
      act_description = Some description, act_status = None, act_assignee = Some assignee,
      act_due_date = Some due_date, act_completed_at = None\<rparr>"

text \<open>
  \<^verbatim>\<open>s.add(new_a); s.commit()\<close>: the INSERT gives a row without an id the next key
  \<open>new_id\<close> and fills the one column default of the table, \<^verbatim>\<open>status = "Planned"\<close>.
\<close>

definition insert_action :: "int \<Rightarrow> action \<Rightarrow> action" where
  "insert_action new_id a =
     a\<lparr>act_id := (case act_id a of None \<Rightarrow> Some new_id | Some i \<Rightarrow> Some i),
       act_status := (case act_status a of None \<Rightarrow> Some (py ''Planned'') | Some s \<Rightarrow> Some s)\<rparr>"

record add_ui =
  add_title :: "pystr option"
  add_desc :: "pystr option"
  add_assignee :: "pystr option"
  add_due :: "date option"
  add_submitted :: bool

text \<open>The form \<^verbatim>\<open>add_action\<close>: the row created when the form is submitted.\<close>

definition add_action :: "date \<Rightarrow> int \<Rightarrow> regulation \<Rightarrow> add_ui \<Rightarrow> action option" where
  "add_action today new_id reg ui =
     (let atitle = text_input (py ''New action'') (add_title ui);
          adesc = text_input [] (add_desc ui);
          aassignee = text_input [] (add_assignee ui);
          adue = date_input today (add_due ui)
      in if add_submitted ui
         then Some (insert_action new_id (Action (reg_id reg) atitle adesc aassignee adue))
         else None)"

section \<open>The specification's predicates\<close>

text \<open>
  The filter as the specification words it. An absent field counts as the empty string;
  a query is contained in a field when the lower-cased query is a contiguous part of the
  lower-cased field; a facet set to the wildcard \<^verbatim>\<open>"All"\<close> is not active, any other value
  must equal the field.
\<close>

definition or_empty :: "pystr option \<Rightarrow> pystr" where
  "or_empty x = (case x of None \<Rightarrow> [] | Some s \<Rightarrow> s)"

definition contains_ci :: "(pystr \<Rightarrow> pystr) \<Rightarrow> pystr \<Rightarrow> pystr \<Rightarrow> bool" where
  "contains_ci lower query field \<longleftrightarrow> sublist (lower query) (lower field)"

definition text_matches :: "(pystr \<Rightarrow> pystr) \<Rightarrow> pystr \<Rightarrow> regulation \<Rightarrow> bool" where
  "text_matches lower query r \<longleftrightarrow>
     contains_ci lower query (reg_title r)
     \<or> contains_ci lower query (or_empty (reg_summary r))
     \<or> contains_ci lower query (or_empty (reg_jurisdiction r))"

definition facet_ok :: "pystr \<Rightarrow> pystr option \<Rightarrow> bool" where
  "facet_ok wanted field \<longleftrightarrow> (wanted \<noteq> py ''All'' \<longrightarrow> field = Some wanted)"

definition facets_ok :: "pystr \<Rightarrow> pystr \<Rightarrow> pystr \<Rightarrow> regulation \<Rightarrow> bool" where
  "facets_ok source status category r \<longleftrightarrow>
     facet_ok source (reg_source r) \<and> facet_ok status (reg_status r)
     \<and> facet_ok category (reg_category r)"

definition satisfies ::
  "(pystr \<Rightarrow> pystr) \<Rightarrow> pystr option \<Rightarrow> pystr \<Rightarrow> pystr \<Rightarrow> pystr \<Rightarrow> regulation \<Rightarrow> bool" where
  "satisfies lower q source status category r \<longleftrightarrow>
     (or_empty q \<noteq> [] \<longrightarrow> text_matches lower (or_empty q) r)
     \<and> facets_ok source status category r"

text \<open>
  The label and the display order as the specification words them: the first \<open>n\<close>
  characters of a string, and the number that a run of decimal digits writes.
\<close>

definition first_chars :: "nat \<Rightarrow> pystr \<Rightarrow> pystr" where
  "first_chars n s = map (\<lambda>i. s ! i) [0..<min n (length s)]"

definition digits_value :: "pystr \<Rightarrow> nat" where
  "digits_value ds = foldl (\<lambda>v c. 10 * v + (c - 48)) 0 ds"

text \<open>The condition under which one pass of the filter loop reaches \<^verbatim>\<open>append\<close>.\<close>

definition keep ::
  "(pystr \<Rightarrow> pystr) \<Rightarrow> pystr \<Rightarrow> pystr \<Rightarrow> pystr \<Rightarrow> pystr \<Rightarrow> regulation \<Rightarrow> bool" where
  "keep lower ql source status category r \<longleftrightarrow>
     (ql \<noteq> [] \<longrightarrow> text_hit lower ql r) \<and> facets_ok source status category r"

section \<open>The seed rows and sample inputs\<close>

text \<open>
  The three regulations and the two actions of the first one that \<^verbatim>\<open>seed_if_empty\<close>
  inserts, with the keys the database gives them, used for the concrete runs.
\<close>

definition r1 :: regulation where
  "r1 = \<lparr>reg_id = 1, reg_title = py ''EU MRV 2025 Amendments'', reg_source = Some (py ''EU''),
          reg_jurisdiction = Some (py ''EU''), reg_category = Some (py ''Environmental''),
          reg_effective_date = Some (2025, 1, 1),
          reg_received_at = Some (Datetime 2025 7 15 10 0 0 0),
          reg_summary = Some (py ''Revised monitoring & reporting for CO'' @ [8322]
                              @ py '' and CH'' @ [8324] @ py ''.''),
          reg_status = Some (py ''In Progress'')\<rparr>"

definition r2 :: regulation where
  "r2 = \<lparr>reg_id = 2, reg_title = py ''IMO MARPOL Annex VI NOx Tier III Guidance'',
          reg_source = Some (py ''IMO''), reg_jurisdiction = Some (py ''Global''),
          reg_category = Some (py ''Technical''), reg_effective_date = Some (2025, 6, 30),
          reg_received_at = Some (Datetime 2025 7 20 9 0 0 0),
          reg_summary =
            Some (py ''Clarifies EIAPP documentation and testing windows for retrofits.''),
          reg_status = Some (py ''Open'')\<rparr>"

definition r3 :: regulation where
  "r3 = \<lparr>reg_id = 3, reg_title = py ''USCG Policy Letter 25-04 on E-Navigation Logs'',
          reg_source = Some (py ''USCG''), reg_jurisdiction = Some (py ''USA''),
          reg_category = Some (py ''Navigation''), reg_effective_date = Some (2025, 9, 1),
          reg_received_at = Some (Datetime 2025 7 25 12 30 0 0),
          reg_summary = Some (py ''Accepts specific e-nav log formats with integrity checks.''),
          reg_status = Some (py ''Open'')\<rparr>"

definition act1 :: action where
  "act1 = \<lparr>act_id = Some 1, act_regulation_id = Some 1,
            act_title = py ''Update data pipeline for CH'' @ [8324],
            act_description = Some (py ''Include methane reporting in MRV extracts''),
            act_status = Some (py ''In Progress''), act_assignee = Some (py ''A. Smith''),
            act_due_date = Some (2025, 8, 20), act_completed_at = None\<rparr>"

definition act2 :: action where
  "act2 = \<lparr>act_id = Some 2, act_regulation_id = Some 1,
            act_title = py ''Crew circular MRV changes'',
            act_description = Some (py ''Ops circular outlining new monitoring plan''),
            act_status = Some (py ''Planned''), act_assignee = Some (py ''M. Lopez''),
            act_due_date = Some (2025, 8, 25), act_completed_at = None\<rparr>"

text \<open>
  Variations of the seed rows: the first action without a due date, the second one due
  on the last day of the calendar, and a regulation whose title has 82 characters.
\<close>

definition act_undated :: action where
  "act_undated = act1\<lparr>act_due_date := None\<rparr>"

definition act_last_day :: action where
  "act_last_day = act2\<lparr>act_due_date := Some (9999, 12, 31)\<rparr>"

definition long_title :: pystr where
  "long_title = replicate 80 120 @ py ''yz''"

definition r_long :: regulation where
  "r_long = r2\<lparr>reg_id := 40, reg_title := long_title\<rparr>"

text \<open>A clock reading, and what a user may do in the expander and in the add form.\<close>

definition now0 :: datetime where
  "now0 = Datetime 2025 8 1 9 30 0 0"

definition today0 :: date where
  "today0 = (2025, 8, 1)"

definition ui_untouched :: action_ui where
  "ui_untouched = \<lparr>ui_title = None, ui_desc = None, ui_status = None, ui_assignee = None,
                    ui_due = None, ui_done = None, ui_save = False, ui_delete = False\<rparr>"

definition ui_mark_done :: action_ui where
  "ui_mark_done = ui_untouched\<lparr>ui_status := Some (py ''Blocked''), ui_done := Some True,
                                ui_save := True\<rparr>"

definition ui_clear_title :: action_ui where
  "ui_clear_title = ui_untouched\<lparr>ui_title := Some [], ui_save := True\<rparr>"

definition add_retrofit :: add_ui where
  "add_retrofit = \<lparr>add_title = Some (py ''Assess retrofit''), add_desc = None,
                    add_assignee = None, add_due = None, add_submitted = True\<rparr>"

definition add_untitled :: add_ui where
  "add_untitled = add_retrofit\<lparr>add_title := Some []\<rparr>"

section \<open>The filter\<close>

lemma str_find_sublist: "str_find s sub \<ge> 0 \<longleftrightarrow> sublist sub s"
proof -
  have "str_find_from i s sub \<ge> 0 \<longleftrightarrow> sublist sub s" for i
    by (induction s arbitrary: i) (auto simp: sublist_Cons_right)
  then show ?thesis by (simp add: str_find_def)
qed

lemma opt_or_empty: "opt_or x [] = or_empty x"
  by (cases x) (simp_all add: opt_or_def str_or_def or_empty_def)

lemma text_hit_matches: "text_hit lower (lower query) r = text_matches lower query r"
  by (simp add: text_hit_def text_matches_def contains_ci_def str_find_sublist opt_or_empty
      str_or_def)

lemma filter_loop_eq:
  "filter_loop lower ql source status category regs acc =
   acc @ filter (keep lower ql source status category) regs"
  by (induction regs arbitrary: acc) (auto simp: keep_def facets_ok_def facet_ok_def)

lemma filtered_keep:
  "filtered lower q source status category regs =
   filter (keep lower (lower (or_empty q)) source status category) regs"
  by (simp add: filtered_def filter_loop_eq opt_or_empty)

lemma keep_text:
  "keep lower (lower query) source status category r \<longleftrightarrow>
   text_matches lower query r \<and> facets_ok source status category r"
  by (auto simp: keep_def text_hit_matches text_matches_def contains_ci_def)

lemma keep_satisfies:
  assumes "lower [] = []"
  shows "keep lower (lower (or_empty q)) source status category r
         = satisfies lower q source status category r"
proof (cases "or_empty q = []")
  case True
  then show ?thesis using assms by (simp add: keep_def satisfies_def)
next
  case False
  then show ?thesis by (simp add: keep_text satisfies_def)
qed

lemma facets_all: "facets_ok (py ''All'') (py ''All'') (py ''All'') r"
  by (simp add: facets_ok_def facet_ok_def)

lemma seed_run_mrv:
  "filtered ascii_lower (Some (py ''mrv'')) (py ''EU'') (py ''All'') (py ''All'') [r1, r2, r3]
   = [r1]"
  by (simp add: filtered_def r1_def r2_def r3_def py_def ascii_lower_def opt_or_def str_or_def
      text_hit_def str_find_def)


text \<open>
  C1. For every query and every three facet values, the filter loop returns exactly the
  loaded regulations that satisfy all active predicates, in load order: it is the list
  filter of the specification's predicate, in which an active facet demands equality of
  the code points with the field. With no query (absent or empty) and the three facets at
  the wildcard the result is the loaded list itself. The hypothesis is Python's
  \<^verbatim>\<open>"".lower() == ""\<close>.
\<close>

theorem filtered_exact:
  assumes "lower [] = []"
  shows "filtered lower q source status category regs
           = filter (satisfies lower q source status category) regs
         \<and> filtered lower None (py ''All'') (py ''All'') (py ''All'') regs = regs
         \<and> filtered lower (Some []) (py ''All'') (py ''All'') (py ''All'') regs = regs"
proof -
  have "keep lower (lower (or_empty q)) source status category
        = satisfies lower q source status category"
    using assms by (intro ext) (rule keep_satisfies)
  then have "filtered lower q source status category regs
        = filter (satisfies lower q source status category) regs"
    by (simp add: filtered_keep)
  moreover have "filtered lower q' (py ''All'') (py ''All'') (py ''All'') regs = regs"
    if "or_empty q' = []" for q'
    using that assms by (simp add: filtered_keep keep_def [abs_def] facets_all)
  ultimately show ?thesis by (simp add: or_empty_def)
qed

theorem filtered_exact_witness:
  "ascii_lower [] = []
   \<and> filter (satisfies ascii_lower (Some (py ''mrv'')) (py ''EU'') (py ''All'') (py ''All''))
        [r1, r2, r3] = [r1]
   \<and> filtered ascii_lower None (py ''All'') (py ''All'') (py ''All'') [r1, r2, r3]
        = [r1, r2, r3]"
proof -
  have h: "ascii_lower [] = []" by (simp add: ascii_lower_def)
  show ?thesis
    using h seed_run_mrv
      filtered_exact [of ascii_lower "Some (py ''mrv'')" "py ''EU''" "py ''All''" "py ''All''"
        "[r1, r2, r3]"]
    by simp
qed



section \<open>Selection labels\<close>

lemma first_chars_take: "first_chars n s = take n s"
  by (rule nth_equalityI) (simp_all add: first_chars_def)

lemma str_nat_digits: "digits_value (str_nat n) = n \<and> set (str_nat n) \<subseteq> {48..57}"
proof (induction n rule: str_nat.induct)
  case (1 n)
  show ?case
  proof (cases "n < 10")
    case True
    then show ?thesis by (subst (1 2) str_nat.simps) (simp add: digits_value_def)
  next
    case False
    with 1 have "digits_value (str_nat (n div 10)) = n div 10"
      and "set (str_nat (n div 10)) \<subseteq> {48..57}" by simp_all
    with False show ?thesis
      by (subst (1 2) str_nat.simps) (simp add: digits_value_def)
  qed
qed

lemma str_int_decimal:
  "\<exists>ds. str_int n = (if n < 0 then [45] else []) @ ds \<and> set ds \<subseteq> {48..57}
        \<and> int (digits_value ds) = \<bar>n\<bar>"
  using str_nat_digits [of "nat \<bar>n\<bar>"]
  by (cases "n < 0") (auto simp: str_int_def abs_if)

lemma label_run:
  "titles [r2, r_long] =
     [py ''#2 '' @ [8212] @ py '' IMO MARPOL Annex VI NOx Tier III Guidance'',
      py ''#40 '' @ [8212] @ [32] @ replicate 80 120]"
  by (simp add: titles_def label_def r2_def r_long_def long_title_def py_def str_int_def
      str_nat.simps)

text \<open>
  C10. The label of a regulation is \<^verbatim>\<open>#\<close>, the id in decimal (digits that write its
  absolute value, after a minus sign when it is negative), a space, an em dash, a space,
  and the first 80 characters of the title: a prefix of the title of length
  \<open>min 80 (length title)\<close>, the whole title when it has at most 80 characters. The labels
  are computed row by row from the filtered list; a label is a new string, the row and its
  title are only read.
\<close>

theorem label_form:
  "label r = py ''#'' @ str_int (reg_id r) @ [32, 8212, 32] @ first_chars 80 (reg_title r)
   \<and> (\<exists>ds. str_int (reg_id r) = (if reg_id r < 0 then [45] else []) @ ds
         \<and> set ds \<subseteq> {48..57} \<and> int (digits_value ds) = \<bar>reg_id r\<bar>)
   \<and> length (first_chars 80 (reg_title r)) = min 80 (length (reg_title r))
   \<and> prefix (first_chars 80 (reg_title r)) (reg_title r)
   \<and> (length (reg_title r) \<le> 80 \<longrightarrow> first_chars 80 (reg_title r) = reg_title r)
   \<and> titles regs = map label regs"
  using str_int_decimal [of "reg_id r"]
  by (simp add: label_def first_chars_take titles_def take_is_prefix min.commute)

theorem label_form_witness:
  "length (reg_title r2) \<le> 80 \<and> first_chars 80 (reg_title r2) = reg_title r2
   \<and> label r2 = py ''#2 '' @ [8212] @ py '' IMO MARPOL Annex VI NOx Tier III Guidance''
   \<and> length (reg_title r_long) = 82 \<and> length (first_chars 80 (reg_title r_long)) = 80"
proof -
  have "length (reg_title r2) \<le> 80" "length (reg_title r_long) = 82"
    by (simp_all add: r2_def r_long_def long_title_def py_def)
  then show ?thesis
    using label_form [of r2 "[r2]"] label_form [of r_long "[r_long]"] label_run
    by (simp add: titles_def)
qed

section \<open>Display order of the actions\<close>

lemma due_key_undated: "act_due_date x = None \<Longrightarrow> due_key x = date_max"
  by (simp add: due_key_def date_or_def)

lemma due_key_dated: "act_due_date x = Some d \<Longrightarrow> due_key x = d"
  by (simp add: due_key_def date_or_def)

lemma sorted_actions_sorted: "sorted (map due_key (sorted_actions actions))"
  by (simp add: sorted_actions_def)

lemma dated_before_undated:
  assumes i: "i < length actions" and j: "j < length actions"
    and di: "act_due_date (sorted_actions actions ! i) = Some d" and d: "d < date_max"
    and dj: "act_due_date (sorted_actions actions ! j) = None"
  shows "i < j"
proof (rule ccontr)
  assume "\<not> i < j"
  then have "j \<le> i" by simp
  let ?ks = "map due_key (sorted_actions actions)"
  have len: "length ?ks = length actions" by (simp add: sorted_actions_def)
  have "?ks ! j \<le> ?ks ! i"
    using sorted_actions_sorted \<open>j \<le> i\<close> i len by (simp add: sorted_iff_nth_mono del: length_map)
  moreover have "?ks ! j = date_max" using j dj by (simp add: sorted_actions_def due_key_undated)
  moreover have "?ks ! i = d" using i di by (simp add: sorted_actions_def due_key_dated)
  ultimately show False using d by simp
qed

lemma sorted_run: "sorted_actions [act_undated, act2] = [act2, act_undated]"
  by (simp add: sorted_actions_def due_key_def date_or_def date_max_def act_undated_def
      act1_def act2_def)

text \<open>
  C4, as amended. The actions are displayed in ascending order of the key, which is the
  due date, or 9999-12-31 for an action without one; the result is a rearrangement of the
  list in which actions with equal keys keep their original order, and sorting it again
  changes nothing. An action whose due date is before 9999-12-31 stands before every
  action without a due date. An action due on 9999-12-31 itself has the key of the
  undated ones and keeps its place among them.
\<close>

theorem sorted_actions_order:
  "sorted (map due_key (sorted_actions actions))
   \<and> mset (sorted_actions actions) = mset actions
   \<and> (\<forall>k. filter (\<lambda>x. due_key x = k) (sorted_actions actions)
            = filter (\<lambda>x. due_key x = k) actions)
   \<and> sorted_actions (sorted_actions actions) = sorted_actions actions
   \<and> (\<forall>i j d. i < length actions \<and> j < length actions
         \<and> act_due_date (sorted_actions actions ! i) = Some d \<and> d < date_max
         \<and> act_due_date (sorted_actions actions ! j) = None \<longrightarrow> i < j)"
proof -
  have "sorted_actions (sorted_actions actions) = sorted_actions actions"
    unfolding sorted_actions_def by (rule sort_key_id_if_sorted) simp
  moreover have "\<forall>k. filter (\<lambda>x. due_key x = k) (sorted_actions actions)
            = filter (\<lambda>x. due_key x = k) actions"
    by (simp add: sorted_actions_def sort_key_stable)
  moreover have "mset (sorted_actions actions) = mset actions"
    by (simp add: sorted_actions_def)
  ultimately show ?thesis
    using sorted_actions_sorted dated_before_undated by blast
qed

theorem sorted_actions_order_witness:
  "sorted_actions [act_undated, act2] = [act2, act_undated]
   \<and> act_due_date act2 = Some (2025, 8, 25) \<and> ((2025, 8, 25) :: date) < date_max
   \<and> act_due_date act_undated = None \<and> (0 :: nat) < 1"
proof -
  have "act_due_date act2 = Some (2025, 8, 25)" "((2025, 8, 25) :: date) < date_max"
    "act_due_date act_undated = None"
    by (simp_all add: act2_def act_undated_def date_max_def)
  then show ?thesis
    using sorted_run sorted_actions_order [of "[act_undated, act2]"]
    by simp
qed

text \<open>
  The claim as first stated fails: listed before an action due on 9999-12-31, an undated
  action stays before it.
\<close>

theorem undated_first_counterexample:
  "sorted_actions [act_undated, act_last_day] = [act_undated, act_last_day]
   \<and> act_due_date act_undated = None \<and> act_due_date act_last_day = Some (9999, 12, 31)"
  by (simp add: sorted_actions_def due_key_def date_or_def date_max_def act_undated_def
      act_last_day_def act1_def act2_def)

section \<open>Regulation status\<close>

lemma list_index_Inr: "list_index xs v = Inr i \<Longrightarrow> i < length xs \<and> xs ! i = v"
proof (induction xs arbitrary: i)
  case Nil
  then show ?case by simp
next
  case (Cons x xs)
  then show ?case by (auto split: if_splits sum.splits)
qed

lemma list_index_mem: "v \<in> set xs \<Longrightarrow> \<exists>i. list_index xs v = Inr i"
  by (induction xs) (auto split: sum.splits)

lemma list_index_not_mem: "v \<notin> set xs \<Longrightarrow> list_index xs v = Inl ValueError"
  by (induction xs) auto

lemma selectbox_index:
  "list_index options v = Inr i \<Longrightarrow>
   selectbox options i picked = (case picked of None \<Rightarrow> v | Some p \<Rightarrow> p)"
  by (auto simp: selectbox_def dest: list_index_Inr split: option.splits)

lemma status_box_pick:
  assumes "opt_or (reg_status reg) (py ''Open'') \<in> set regulation_statuses"
  shows "status_box reg picked =
     Inr (update_status
            (case picked of None \<Rightarrow> opt_or (reg_status reg) (py ''Open'') | Some p \<Rightarrow> p) reg)"
proof -
  from list_index_mem [OF assms]
  obtain i where i: "list_index regulation_statuses (opt_or (reg_status reg) (py ''Open'')) = Inr i" ..
  show ?thesis by (simp add: status_box_def i selectbox_index [OF i])
qed

text \<open>
  C5, as amended. For every regulation and every new status value, the update writes the
  value into the status and leaves every other field as it was: it checks no membership
  and has no failure of its own. The three legal values are the options of the select
  box that supplies the value; picked there, on a regulation whose stored status the box
  can show, the value becomes the status of the committed row.
\<close>

theorem update_status_replaces:
  "update_status new_status reg = reg\<lparr>reg_status := Some new_status\<rparr>
   \<and> (opt_or (reg_status reg) (py ''Open'') \<in> set regulation_statuses \<longrightarrow>
        status_box reg (Some new_status) = Inr (reg\<lparr>reg_status := Some new_status\<rparr>))"
proof -
  have "update_status new_status reg = reg\<lparr>reg_status := Some new_status\<rparr>"
    by (cases "reg_status reg = Some new_status") (auto simp: update_status_def)
  then show ?thesis by (simp add: status_box_pick)
qed

theorem update_status_replaces_witness:
  "opt_or (reg_status r2) (py ''Open'') \<in> set regulation_statuses
   \<and> status_box r2 (Some (py ''Closed'')) = Inr (r2\<lparr>reg_status := Some (py ''Closed'')\<rparr>)"
proof -
  have "opt_or (reg_status r2) (py ''Open'') \<in> set regulation_statuses"
    by (simp add: r2_def opt_or_def str_or_def regulation_statuses_def py_def)
  then show ?thesis
    using update_status_replaces [of "py ''Closed''" r2] by simp
qed

text \<open>
  The claim as first stated fails: given a value that is not one of the three, the update
  does not fail and the status changes.
\<close>

theorem invalid_status_counterexample:
  "py ''Bogus'' \<notin> set regulation_statuses
   \<and> reg_status (update_status (py ''Bogus'') r2) = Some (py ''Bogus'')
   \<and> reg_status (update_status (py ''Bogus'') r2) \<noteq> reg_status r2"
  by (simp add: update_status_def r2_def regulation_statuses_def py_def)

section \<open>Saving and adding actions\<close>

lemma action_row_saved:
  assumes "opt_or (act_status a) (py ''Planned'') \<in> set action_statuses"
    and "ui_save ui" and "\<not> ui_delete ui"
  shows "action_row today utcnow a ui =
     Inr (Some (save_action utcnow
        (text_input (act_title a) (ui_title ui))
        (text_input (opt_or (act_description a) []) (ui_desc ui))
        (case ui_status ui of None \<Rightarrow> opt_or (act_status a) (py ''Planned'') | Some p \<Rightarrow> p)
        (text_input (opt_or (act_assignee a) []) (ui_assignee ui))
        (date_input (date_or (act_due_date a) today) (ui_due ui))
        (checkbox (act_status a = Some (py ''Done'')) (ui_done ui)) a))"
proof -
  from list_index_mem [OF assms(1)]
  obtain i where i: "list_index action_statuses (opt_or (act_status a) (py ''Planned'')) = Inr i" ..
  show ?thesis
    using assms(2,3) by (simp add: action_row_def i selectbox_index [OF i] Let_def)
qed

lemma save_action_fields:
  "save_action utcnow new_title new_desc new_status new_assignee new_due done a =
     a\<lparr>act_title := new_title, act_description := Some new_desc,
       act_status := Some (if done then py ''Done'' else new_status),
       act_assignee := Some new_assignee, act_due_date := Some new_due,
       act_completed_at := (if done \<or> new_status = py ''Done'' then Some utcnow else None)\<rparr>"
  by (simp add: save_action_def Let_def)

lemma add_action_row:
  "add_submitted ui \<Longrightarrow>
   add_action today new_id reg ui =
     Some \<lparr>act_id = Some new_id, act_regulation_id = Some (reg_id reg),
           act_title = text_input (py ''New action'') (add_title ui),
           act_description = Some (text_input [] (add_desc ui)),
           act_status = Some (py ''Planned''),
           act_assignee = Some (text_input [] (add_assignee ui)),
           act_due_date = Some (date_input today (add_due ui)),
           act_completed_at = None\<rparr>"
  by (simp add: add_action_def Action_def insert_action_def Let_def)

lemma act1_shown: "opt_or (act_status act1) (py ''Planned'') \<in> set action_statuses"
  by (simp add: act1_def opt_or_def str_or_def action_statuses_def py_def)

lemma undated_shown: "opt_or (act_status act_undated) (py ''Planned'') \<in> set action_statuses"
  by (simp add: act_undated_def act1_def opt_or_def str_or_def action_statuses_def py_def)

text \<open>
  C3. For every save of an action: when the status it leaves is \<^verbatim>\<open>"Done"\<close>,
  \<^verbatim>\<open>completed_at\<close> is the current time; for any other status it is empty; so after the
  save \<^verbatim>\<open>completed_at\<close> is set exactly when the status is \<^verbatim>\<open>"Done"\<close>. The same holds of a
  row created by the add form.
\<close>

theorem completed_at_iff_done:
  "(let a' = save_action utcnow new_title new_desc new_status new_assignee new_due done a in
      (act_status a' = Some (py ''Done'') \<longrightarrow> act_completed_at a' = Some utcnow)
      \<and> (act_status a' \<noteq> Some (py ''Done'') \<longrightarrow> act_completed_at a' = None)
      \<and> (act_completed_at a' \<noteq> None \<longleftrightarrow> act_status a' = Some (py ''Done'')))
   \<and> (\<forall>b. add_action today new_id reg add = Some b \<longrightarrow>
         (act_completed_at b \<noteq> None \<longleftrightarrow> act_status b = Some (py ''Done'')))"
proof -
  have "act_completed_at b \<noteq> None \<longleftrightarrow> act_status b = Some (py ''Done'')"
    if "add_action today new_id reg add = Some b" for b
  proof -
    have "add_submitted add" using that by (auto simp: add_action_def Let_def split: if_splits)
    from add_action_row [OF this, of today new_id reg] that show ?thesis
      by (auto simp: py_def)
  qed
  then show ?thesis by (simp add: save_action_fields Let_def)
qed

theorem completed_at_iff_done_witness:
  "act_status (save_action now0 [] [] (py ''Blocked'') [] today0 True act1) = Some (py ''Done'')
   \<and> act_completed_at (save_action now0 [] [] (py ''Blocked'') [] today0 True act1) = Some now0
   \<and> act_status (save_action now0 [] [] (py ''Blocked'') [] today0 False act1)
        \<noteq> Some (py ''Done'')
   \<and> act_completed_at (save_action now0 [] [] (py ''Blocked'') [] today0 False act1) = None
   \<and> (\<exists>b. add_action today0 3 r2 add_retrofit = Some b
          \<and> (act_completed_at b \<noteq> None \<longleftrightarrow> act_status b = Some (py ''Done'')))"
proof -
  have s1: "act_status (save_action now0 [] [] (py ''Blocked'') [] today0 True act1)
            = Some (py ''Done'')"
    by (simp add: save_action_fields)
  have s2: "act_status (save_action now0 [] [] (py ''Blocked'') [] today0 False act1)
            \<noteq> Some (py ''Done'')"
    by (simp add: save_action_fields py_def)
  have s3: "add_action today0 3 r2 add_retrofit \<noteq> None"
    by (simp add: add_action_def add_retrofit_def Let_def)
  show ?thesis
    using s1 s2 s3
      completed_at_iff_done [of now0 "[]" "[]" "py ''Blocked''" "[]" today0 True act1
        today0 3 r2 add_retrofit]
      completed_at_iff_done [of now0 "[]" "[]" "py ''Blocked''" "[]" today0 False act1
        today0 3 r2 add_retrofit]
    by (auto simp: Let_def)
qed

text \<open>
  C8. In every save the done flag overrides the status field: the status written is
  \<^verbatim>\<open>"Done"\<close> when the flag is set, whatever status was supplied, and the supplied status
  when it is not. In the expander the flag is the check box, ticked at first exactly when
  the stored status is \<^verbatim>\<open>"Done"\<close>, and the supplied status is the option picked, at first
  the stored one.
\<close>

theorem done_flag_overrides:
  "act_status (save_action utcnow new_title new_desc new_status new_assignee new_due done a)
     = Some (if done then py ''Done'' else new_status)
   \<and> (opt_or (act_status a) (py ''Planned'') \<in> set action_statuses \<and> ui_save ui
        \<and> \<not> ui_delete ui \<longrightarrow>
      map_sum id (map_option act_status) (action_row today utcnow a ui)
        = Inr (Some (Some
            (if checkbox (act_status a = Some (py ''Done'')) (ui_done ui) then py ''Done''
             else (case ui_status ui of
                     None \<Rightarrow> opt_or (act_status a) (py ''Planned'')
                   | Some p \<Rightarrow> p)))))"
  by (simp add: action_row_saved save_action_fields)

theorem done_flag_overrides_witness:
  "opt_or (act_status act1) (py ''Planned'') \<in> set action_statuses \<and> ui_save ui_mark_done
   \<and> \<not> ui_delete ui_mark_done
   \<and> map_sum id (map_option act_status) (action_row today0 now0 act1 ui_mark_done)
       = Inr (Some (Some (py ''Done'')))"
  using act1_shown done_flag_overrides [of now0 "[]" "[]" "[]" "[]" today0 True act1
      ui_mark_done today0]
  by (simp add: ui_mark_done_def ui_untouched_def checkbox_def)

text \<open>
  C6, as amended. No save and no add is rejected for its title: the code has no title
  check and no failure for it, and the row is committed with exactly the title supplied,
  the empty title included.
\<close>

theorem title_kept_as_supplied:
  "act_title (save_action utcnow new_title new_desc new_status new_assignee new_due done a)
     = new_title
   \<and> (opt_or (act_status a) (py ''Planned'') \<in> set action_statuses \<and> ui_save ui
        \<and> \<not> ui_delete ui \<longrightarrow>
      map_sum id (map_option act_title) (action_row today utcnow a (ui\<lparr>ui_title := Some t\<rparr>))
        = Inr (Some t))
   \<and> map_option act_title
        (add_action today new_id reg (add\<lparr>add_title := Some t, add_submitted := True\<rparr>))
        = Some t"
  by (simp add: action_row_saved save_action_fields add_action_row text_input_def)

theorem title_kept_as_supplied_witness:
  "opt_or (act_status act1) (py ''Planned'') \<in> set action_statuses \<and> ui_save ui_clear_title
   \<and> \<not> ui_delete ui_clear_title
   \<and> map_sum id (map_option act_title) (action_row today0 now0 act1 ui_clear_title)
       = Inr (Some [])"
proof -
  have "ui_clear_title\<lparr>ui_title := Some []\<rparr> = ui_clear_title" "ui_save ui_clear_title"
    "\<not> ui_delete ui_clear_title"
    by (simp_all add: ui_clear_title_def ui_untouched_def)
  then show ?thesis
    using act1_shown
      title_kept_as_supplied [where a = act1 and ui = ui_clear_title and t = "[]"
        and today = today0 and utcnow = now0]
    by simp
qed

text \<open>
  The claim as first stated fails: a save and an add with the empty title both go
  through, and the committed row has the empty title.
\<close>

theorem empty_title_counterexample:
  "map_sum id (map_option act_title) (action_row today0 now0 act1 ui_clear_title)
     = Inr (Some [])
   \<and> map_option act_title (add_action today0 3 r2 add_untitled) = Some []"
proof -
  have "action_row today0 now0 act1 ui_clear_title
     = Inr (Some (save_action now0
        (text_input (act_title act1) (ui_title ui_clear_title))
        (text_input (opt_or (act_description act1) []) (ui_desc ui_clear_title))
        (case ui_status ui_clear_title of
           None \<Rightarrow> opt_or (act_status act1) (py ''Planned'') | Some p \<Rightarrow> p)
        (text_input (opt_or (act_assignee act1) []) (ui_assignee ui_clear_title))
        (date_input (date_or (act_due_date act1) today0) (ui_due ui_clear_title))
        (checkbox (act_status act1 = Some (py ''Done'')) (ui_done ui_clear_title)) act1))"
    by (rule action_row_saved [OF act1_shown])
      (simp_all add: ui_clear_title_def ui_untouched_def)
  moreover have "add_submitted add_untitled" "add_title add_untitled = Some []"
    by (simp_all add: add_untitled_def add_retrofit_def)
  ultimately show ?thesis
    by (simp add: save_action_fields add_action_row text_input_def ui_clear_title_def
        ui_untouched_def)
qed

text \<open>
  C7. The add form supplies no status. The row it creates has status \<^verbatim>\<open>"Planned"\<close>, an
  empty \<^verbatim>\<open>completed_at\<close>, the title, description, assignee and due date of the form (what
  the user entered, or what the field showed when left alone), and the id of the
  regulation shown as its \<^verbatim>\<open>regulation_id\<close>.
\<close>

theorem add_action_defaults:
  "add_action today new_id reg
     \<lparr>add_title = t, add_desc = d, add_assignee = s, add_due = dd, add_submitted = True\<rparr>
   = Some \<lparr>act_id = Some new_id, act_regulation_id = Some (reg_id reg),
           act_title = (case t of None \<Rightarrow> py ''New action'' | Some x \<Rightarrow> x),
           act_description = Some (case d of None \<Rightarrow> [] | Some x \<Rightarrow> x),
           act_status = Some (py ''Planned''),
           act_assignee = Some (case s of None \<Rightarrow> [] | Some x \<Rightarrow> x),
           act_due_date = Some (case dd of None \<Rightarrow> today | Some x \<Rightarrow> x),
           act_completed_at = None\<rparr>"
  by (simp add: add_action_row text_input_def date_input_def)

theorem add_action_defaults_witness:
  "add_action today0 3 r2 add_retrofit
   = Some \<lparr>act_id = Some 3, act_regulation_id = Some 2, act_title = py ''Assess retrofit'',
           act_description = Some [], act_status = Some (py ''Planned''),
           act_assignee = Some [], act_due_date = Some (2025, 8, 1),
           act_completed_at = None\<rparr>"
  using add_action_defaults [of today0 3 r2 "Some (py ''Assess retrofit'')" None None None]
  by (simp add: add_retrofit_def r2_def today0_def)

text \<open>
  C9. Every action saved or added has a due date. A save writes the date of the date
  field, which shows the stored due date, or today's date when there is none, until the
  user picks another: the due date cannot be cleared, and an undated action left alone
  gets today's date on its first save. The add form likewise writes the date of its date
  field, today's unless the user picks one.
\<close>

theorem due_date_never_null:
  "act_due_date (save_action utcnow new_title new_desc new_status new_assignee new_due done a)
     = Some new_due
   \<and> (opt_or (act_status a) (py ''Planned'') \<in> set action_statuses \<and> ui_save ui
        \<and> \<not> ui_delete ui \<longrightarrow>
      map_sum id (map_option act_due_date) (action_row today utcnow a ui)
        = Inr (Some (Some (case ui_due ui of
                             Some d \<Rightarrow> d
                           | None \<Rightarrow> (case act_due_date a of Some d \<Rightarrow> d | None \<Rightarrow> today)))))
   \<and> (\<forall>a'. action_row today utcnow a ui = Inr (Some a') \<and> ui_save ui \<longrightarrow>
         act_due_date a' \<noteq> None)
   \<and> (\<forall>b. add_action today new_id reg add = Some b \<longrightarrow>
         act_due_date b = Some (case add_due add of Some d \<Rightarrow> d | None \<Rightarrow> today))"
proof -
  have "act_due_date a' = Some (date_input (date_or (act_due_date a) today) (ui_due ui))"
    if "action_row today utcnow a ui = Inr (Some a')" "ui_save ui" for a'
    using that
    by (auto simp: action_row_def Let_def save_action_fields split: sum.splits if_splits)
  then have saved: "\<forall>a'. action_row today utcnow a ui = Inr (Some a') \<and> ui_save ui \<longrightarrow>
         act_due_date a' \<noteq> None"
    by (metis option.distinct(1))
  have "act_due_date b = Some (case add_due add of Some d \<Rightarrow> d | None \<Rightarrow> today)"
    if "add_action today new_id reg add = Some b" for b
  proof -
    have "add_submitted add" using that by (auto simp: add_action_def Let_def split: if_splits)
    from add_action_row [OF this, of today new_id reg] that show ?thesis
      by (auto simp: date_input_def split: option.splits)
  qed
  then have added: "\<forall>b. add_action today new_id reg add = Some b \<longrightarrow>
         act_due_date b = Some (case add_due add of Some d \<Rightarrow> d | None \<Rightarrow> today)"
    by blast
  have row: "map_sum id (map_option act_due_date) (action_row today utcnow a ui)
        = Inr (Some (Some (case ui_due ui of
                             Some d \<Rightarrow> d
                           | None \<Rightarrow> (case act_due_date a of Some d \<Rightarrow> d | None \<Rightarrow> today))))"
    if "opt_or (act_status a) (py ''Planned'') \<in> set action_statuses" "ui_save ui"
      "\<not> ui_delete ui"
    using that
    by (simp add: action_row_saved save_action_fields date_input_def date_or_def
        split: option.splits)
  have "act_due_date
          (save_action utcnow new_title new_desc new_status new_assignee new_due done a)
        = Some new_due"
    by (simp add: save_action_fields)
  with saved added row show ?thesis by blast
qed

theorem due_date_never_null_witness:
  "opt_or (act_status act_undated) (py ''Planned'') \<in> set action_statuses
   \<and> ui_save ui_mark_done \<and> \<not> ui_delete ui_mark_done \<and> act_due_date act_undated = None
   \<and> map_sum id (map_option act_due_date) (action_row today0 now0 act_undated ui_mark_done)
       = Inr (Some (Some today0))
   \<and> map_option act_due_date (add_action today0 3 r2 add_retrofit) = Some (Some today0)"
proof -
  have "ui_save ui_mark_done" "\<not> ui_delete ui_mark_done" "ui_due ui_mark_done = None"
    "act_due_date act_undated = None" "add_due add_retrofit = None"
    "add_action today0 3 r2 add_retrofit \<noteq> None"
    by (simp_all add: ui_mark_done_def ui_untouched_def act_undated_def add_retrofit_def
        add_action_def Let_def)
  then show ?thesis
    using undated_shown
      due_date_never_null [where a = act_undated and ui = ui_mark_done and today = today0
        and utcnow = now0 and reg = r2 and add = add_retrofit and new_id = 3]
    by auto
qed

end
